theory Spec2Isabelle
  imports Main
begin

section \<open>PlatformTools: the platform facade of src/platform/PlatformTools.ts\<close>

text \<open>
  The class \<^verbatim>\<open>PlatformTools\<close> has one static field, \<^verbatim>\<open>type\<close>, and static methods
  that delegate to the Node host (\<^verbatim>\<open>require\<close>, \<^verbatim>\<open>path\<close>, \<^verbatim>\<open>fs\<close>, \<^verbatim>\<open>process\<close>,
  \<^verbatim>\<open>dotenv\<close>, \<^verbatim>\<open>chalk\<close>, \<^verbatim>\<open>cli-highlight\<close>, \<^verbatim>\<open>console\<close>). The host is not
  part of the file, so its primitives are the fields of a record \<open>host\<close>, over a host
  world \<open>'w\<close> (installed modules, file system, environment, terminal) that a primitive
  may read and change. A JavaScript \<^verbatim>\<open>throw\<close> is the \<open>Inl\<close> of a sum:
  \<^verbatim>\<open>process.cwd()\<close>, for one, throws when the working directory has been removed.
\<close>

subsection \<open>Values, errors, the host\<close>

datatype platform_type = Browser | Node

datatype js_value =
  JUndefined | JNull | JBool bool | JNumber int | JString string | JObject nat

text \<open>
  \<^verbatim>\<open>if (err)\<close> tests a value of type \<^verbatim>\<open>any\<close> for truthiness. Numbers are
  integers here, so \<^verbatim>\<open>NaN\<close>, the other falsy number, has no counterpart.
\<close>

fun to_boolean :: "js_value \<Rightarrow> bool" where
  "to_boolean JUndefined = False"
| "to_boolean JNull = False"
| "to_boolean (JBool b) = b"
| "to_boolean (JNumber n) = (n \<noteq> 0)"
| "to_boolean (JString s) = (s \<noteq> [])"
| "to_boolean (JObject a) = True"

text \<open>
  \<open>TypeError m\<close> is \<^verbatim>\<open>new TypeError(m)\<close>; \<open>HostError m\<close> is any other thrown error,
  with the host's description of it. A host primitive may throw either.
\<close>

datatype js_error = TypeError string | HostError string

datatype chalk_style =
  BlueBright | White | MagentaBright | Gray | Underline | Red | Yellow | Black | BgRed

text \<open>
  What \<^verbatim>\<open>dotenv.config\<close> returns: the pairs it has parsed and the error it reports,
  each of them possibly absent. The package reports a file it cannot read or parse in
  this value; its declaration is not part of the source file.
\<close>

datatype dotenv_config_output =
  DotenvConfigOutput "(string \<times> string) list option" "js_error option"

record highlight_options =
  theme :: "(string \<times> chalk_style list) list option"
  language :: string

record 'w host =
  global_object :: js_value
  require :: "string \<Rightarrow> 'w \<Rightarrow> (js_error + js_value) \<times> 'w"
  process_cwd :: "'w \<Rightarrow> js_error + string"
  process_platform :: string
  process_env :: "'w \<Rightarrow> string \<Rightarrow> js_value"
  path_normalize :: "string \<Rightarrow> string"
  path_extname :: "string \<Rightarrow> string"
  path_resolve :: "'w \<Rightarrow> string \<Rightarrow> string"
  fs_existsSync :: "string \<Rightarrow> 'w \<Rightarrow> bool"
  fs_readFileSync :: "string \<Rightarrow> 'w \<Rightarrow> (js_error + string) \<times> 'w"
  fs_appendFileSync :: "string \<Rightarrow> js_value \<Rightarrow> 'w \<Rightarrow> (js_error + unit) \<times> 'w"
  fs_writeFile :: "string \<Rightarrow> js_value \<Rightarrow> 'w \<Rightarrow> js_error option \<times> 'w"
  dotenv_config :: "string \<Rightarrow> 'w \<Rightarrow> (js_error + dotenv_config_output) \<times> 'w"
  chalk :: "chalk_style list \<Rightarrow> js_value \<Rightarrow> string"
  highlight :: "string \<Rightarrow> highlight_options \<Rightarrow> string"
  console_log :: "js_value list \<Rightarrow> 'w \<Rightarrow> 'w"
  console_error :: "js_value list \<Rightarrow> 'w \<Rightarrow> 'w"

text \<open>
  The state a call runs in: the static field \<^verbatim>\<open>PlatformTools.type\<close>, the host world,
  and \<open>loads\<close>, the arguments of every \<^verbatim>\<open>require\<close> made so far, oldest first. The
  field \<open>loads\<close> is a record of what was attempted; no operation reads it.
\<close>

record 'w pt_state =
  type :: platform_type
  world :: 'w
  loads :: "string list"

definition initial :: "'w \<Rightarrow> 'w pt_state" where
  "initial w = \<lparr>type = Node, world = w, loads = []\<rparr>"

type_synonym ('a, 'w) outcome = "(js_error + 'a) \<times> 'w pt_state"

text \<open>\<^verbatim>\<open>require(p)\<close>: the host loads \<open>p\<close>, and the attempt is recorded.\<close>

definition host_require :: "'w host \<Rightarrow> string \<Rightarrow> 'w pt_state \<Rightarrow> (js_value, 'w) outcome" where
  "host_require h p s =
     (case require h p (world s) of
        (r, w') \<Rightarrow> (r, s\<lparr>world := w', loads := loads s @ [p]\<rparr>))"

subsection \<open>load\<close>

text \<open>
  The \<^verbatim>\<open>switch\<close> of \<^verbatim>\<open>load\<close>, case by case in the order of the source: the case
  label and the argument of the \<^verbatim>\<open>require\<close> it returns.
\<close>

definition switch_cases :: "(string \<times> string) list" where
  "switch_cases =
     [(''spanner'', ''@google-cloud/spanner''),
      (''mongodb'', ''mongodb''),
      (''@sap/hana-client'', ''@sap/hana-client''),
      (''hdb-pool'', ''hdb-pool''),
      (''mysql'', ''mysql''),
      (''mysql2'', ''mysql2''),
      (''mariadb'', ''mariadb/callback''),
      (''oracledb'', ''oracledb''),
      (''pg'', ''pg''),
      (''pg-native'', ''pg-native''),
      (''pg-query-stream'', ''pg-query-stream''),
      (''typeorm-aurora-data-api-driver'', ''typeorm-aurora-data-api-driver''),
      (''redis'', ''redis''),
      (''ioredis'', ''ioredis''),
      (''better-sqlite3'', ''better-sqlite3''),
      (''sqlite3'', ''sqlite3''),
      (''sql.js'', ''sql.js''),
      (''mssql'', ''mssql''),
      (''react-native-sqlite-storage'', ''react-native-sqlite-storage'')]"

definition resolution_table :: "string \<rightharpoonup> string" where
  "resolution_table = map_of switch_cases"

text \<open>
  \<^verbatim>\<open>load(name)\<close>. Inside \<^verbatim>\<open>try\<close>, a matching case returns its \<^verbatim>\<open>require\<close>; when
  that throws, \<^verbatim>\<open>catch\<close> returns
  \<^verbatim>\<open>require(path.resolve(process.cwd() + "/node_modules/" + name))\<close>, outside any
  \<^verbatim>\<open>try\<close>: when \<^verbatim>\<open>process.cwd()\<close> throws there, \<^verbatim>\<open>load\<close> throws that error and
  the second \<^verbatim>\<open>require\<close> is never made. When no case matches, nothing is thrown inside \<^verbatim>\<open>try\<close>, control
  leaves the \<^verbatim>\<open>switch\<close> and reaches the \<^verbatim>\<open>throw new TypeError(...)\<close> after it.
\<close>

definition load :: "'w host \<Rightarrow> string \<Rightarrow> 'w pt_state \<Rightarrow> (js_value, 'w) outcome" where
  "load h name s =
     (case resolution_table name of
        Some target \<Rightarrow>
          (case host_require h target s of
             (Inr loaded, s1) \<Rightarrow> (Inr loaded, s1)
           | (Inl err, s1) \<Rightarrow>
               (case process_cwd h (world s1) of
                  Inr dir \<Rightarrow>
                    host_require h
                      (path_resolve h (world s1) (dir @ ''/node_modules/'' @ name))
                      s1
                | Inl cwd_err \<Rightarrow> (Inl cwd_err, s1)))
      | None \<Rightarrow>
          (Inl (TypeError (''Invalid Package for PlatformTools.load: '' @ name)), s))"

subsection \<open>Paths, files, environment\<close>

text \<open>\<^verbatim>\<open>replace(/\\/g, "/")\<close>: every backslash (character 0x5C) becomes a slash.\<close>

fun replace_backslashes :: "string \<Rightarrow> string" where
  "replace_backslashes [] = []"
| "replace_backslashes (c # cs) =
     (if c = CHR 0x5C then CHR ''/'' else c) # replace_backslashes cs"

definition pathNormalize :: "'w host \<Rightarrow> string \<Rightarrow> string" where
  "pathNormalize h pathStr =
     (let normalizedPath = path_normalize h pathStr
      in if process_platform h = ''win32'' then replace_backslashes normalizedPath
         else normalizedPath)"

definition pathExtname :: "'w host \<Rightarrow> string \<Rightarrow> string" where
  "pathExtname h pathStr = path_extname h pathStr"

definition pathResolve :: "'w host \<Rightarrow> string \<Rightarrow> 'w pt_state \<Rightarrow> string" where
  "pathResolve h pathStr s = path_resolve h (world s) pathStr"

definition fileExist :: "'w host \<Rightarrow> string \<Rightarrow> 'w pt_state \<Rightarrow> bool" where
  "fileExist h pathStr s = fs_existsSync h pathStr (world s)"

definition readFileSync :: "'w host \<Rightarrow> string \<Rightarrow> 'w pt_state \<Rightarrow> (string, 'w) outcome" where
  "readFileSync h filename s =
     (case fs_readFileSync h filename (world s) of (r, w') \<Rightarrow> (r, s\<lparr>world := w'\<rparr>))"

definition appendFileSync ::
  "'w host \<Rightarrow> string \<Rightarrow> js_value \<Rightarrow> 'w pt_state \<Rightarrow> (unit, 'w) outcome" where
  "appendFileSync h filename data s =
     (case fs_appendFileSync h filename data (world s) of (r, w') \<Rightarrow> (r, s\<lparr>world := w'\<rparr>))"

text \<open>
  \<^verbatim>\<open>writeFile\<close> returns a promise; the outcome is how it settles. The callback calls
  \<^verbatim>\<open>fail(err)\<close> when \<^verbatim>\<open>err\<close> is set and then \<^verbatim>\<open>ok()\<close>, which a settled promise
  ignores.
\<close>

definition writeFile ::
  "'w host \<Rightarrow> string \<Rightarrow> js_value \<Rightarrow> 'w pt_state \<Rightarrow> (unit, 'w) outcome" where
  "writeFile h path data s =
     (case fs_writeFile h path data (world s) of
        (Some err, w') \<Rightarrow> (Inl err, s\<lparr>world := w'\<rparr>)
      | (None, w') \<Rightarrow> (Inr (), s\<lparr>world := w'\<rparr>))"

text \<open>\<^verbatim>\<open>dotenv.config({ path: pathStr })\<close>; what it returns is dropped.\<close>

definition dotenv :: "'w host \<Rightarrow> string \<Rightarrow> 'w pt_state \<Rightarrow> (unit, 'w) outcome" where
  "dotenv h pathStr s =
     (case dotenv_config h pathStr (world s) of
        (Inl err, w') \<Rightarrow> (Inl err, s\<lparr>world := w'\<rparr>)
      | (Inr out, w') \<Rightarrow> (Inr (), s\<lparr>world := w'\<rparr>))"

definition getEnvVariable :: "'w host \<Rightarrow> string \<Rightarrow> 'w pt_state \<Rightarrow> js_value" where
  "getEnvVariable h name s = process_env h (world s) name"

definition getGlobalVariable :: "'w host \<Rightarrow> js_value" where
  "getGlobalVariable h = global_object h"

subsection \<open>Console output\<close>

definition highlightSql :: "'w host \<Rightarrow> string \<Rightarrow> string" where
  "highlightSql h sql =
     highlight h sql
       \<lparr>theme = Some
          [(''keyword'', [BlueBright]),
           (''literal'', [BlueBright]),
           (''string'', [White]),
           (''type'', [MagentaBright]),
           (''built_in'', [MagentaBright]),
           (''comment'', [Gray])],
        language = ''sql''\<rparr>"

definition highlightJson :: "'w host \<Rightarrow> string \<Rightarrow> string" where
  "highlightJson h json = highlight h json \<lparr>theme = None, language = ''json''\<rparr>"

definition logInfo :: "'w host \<Rightarrow> string \<Rightarrow> js_value \<Rightarrow> 'w pt_state \<Rightarrow> 'w pt_state" where
  "logInfo h prefix info s =
     s\<lparr>world := console_log h [JString (chalk h [Gray, Underline] (JString prefix)), info] (world s)\<rparr>"

definition logError :: "'w host \<Rightarrow> string \<Rightarrow> js_value \<Rightarrow> 'w pt_state \<Rightarrow> 'w pt_state" where
  "logError h prefix error s =
     s\<lparr>world := console_log h [JString (chalk h [Underline, Red] (JString prefix)), error] (world s)\<rparr>"

definition logWarn :: "'w host \<Rightarrow> string \<Rightarrow> js_value \<Rightarrow> 'w pt_state \<Rightarrow> 'w pt_state" where
  "logWarn h prefix warning s =
     s\<lparr>world := console_log h [JString (chalk h [Underline, Yellow] (JString prefix)), warning] (world s)\<rparr>"

definition log :: "'w host \<Rightarrow> string \<Rightarrow> 'w pt_state \<Rightarrow> 'w pt_state" where
  "log h message s =
     s\<lparr>world := console_log h [JString (chalk h [Underline] (JString message))] (world s)\<rparr>"

definition info :: "'w host \<Rightarrow> js_value \<Rightarrow> string" where
  "info h i = chalk h [Gray] i"

definition error :: "'w host \<Rightarrow> js_value \<Rightarrow> string" where
  "error h e = chalk h [Red] e"

definition warn :: "'w host \<Rightarrow> string \<Rightarrow> string" where
  "warn h message = chalk h [Yellow] (JString message)"

definition logCmdErr :: "'w host \<Rightarrow> string \<Rightarrow> js_value \<Rightarrow> 'w pt_state \<Rightarrow> 'w pt_state" where
  "logCmdErr h prefix err s =
     (let s1 = s\<lparr>world := console_log h [JString (chalk h [Black, BgRed] (JString prefix))] (world s)\<rparr>
      in if to_boolean err then s1\<lparr>world := console_error h [err] (world s1)\<rparr> else s1)"

subsection \<open>Sequences of calls\<close>

text \<open>
  One constructor for each static method, with its arguments. \<open>after_call\<close> is the
  state a call leaves, whether it returned or threw; a method that only computes a
  value from its arguments and the host leaves the state as it found it.
\<close>

datatype call =
  GetGlobalVariable
| Load string
| PathNormalize string
| PathExtname string
| PathResolve string
| FileExist string
| ReadFileSync string
| AppendFileSync string js_value
| WriteFile string js_value
| Dotenv string
| GetEnvVariable string
| HighlightSql string
| HighlightJson string
| LogInfo string js_value
| LogError string js_value
| LogWarn string js_value
| Log string
| Info js_value
| Error js_value
| Warn string
| LogCmdErr string js_value

fun after_call :: "'w host \<Rightarrow> call \<Rightarrow> 'w pt_state \<Rightarrow> 'w pt_state" where
  "after_call h (Load name) s = snd (load h name s)"
| "after_call h (ReadFileSync filename) s = snd (readFileSync h filename s)"
| "after_call h (AppendFileSync filename data) s = snd (appendFileSync h filename data s)"
| "after_call h (WriteFile path data) s = snd (writeFile h path data s)"
| "after_call h (Dotenv pathStr) s = snd (dotenv h pathStr s)"
| "after_call h (LogInfo prefix i) s = logInfo h prefix i s"
| "after_call h (LogError prefix e) s = logError h prefix e s"
| "after_call h (LogWarn prefix w) s = logWarn h prefix w s"
| "after_call h (Log message) s = log h message s"
| "after_call h (LogCmdErr prefix err) s = logCmdErr h prefix err s"
| "after_call h c s = s"

subsection \<open>A host to run the definitions on\<close>

text \<open>
  A world is the table of what is installed: the argument of \<^verbatim>\<open>require\<close> and the
  module object it yields. The working directory is \<^verbatim>\<open>/app\<close>, paths are already
  absolute and normal, there are no files (so \<^verbatim>\<open>dotenv.config\<close> reports the file it
  cannot read in what it returns), and the terminal forgets what is printed.
\<close>

definition demo_host :: "(string \<times> js_value) list host" where
  "demo_host =
     \<lparr>global_object = JObject 0,
      require = (\<lambda>p w.
        (case map_of w p of
           Some m \<Rightarrow> Inr m
         | None \<Rightarrow> Inl (HostError (''Cannot find module '' @ p)), w)),
      process_cwd = (\<lambda>w. Inr ''/app''),
      process_platform = ''linux'',
      process_env = (\<lambda>w name. JUndefined),
      path_normalize = (\<lambda>p. p),
      path_extname = (\<lambda>p. []),
      path_resolve = (\<lambda>w p. p),
      fs_existsSync = (\<lambda>p w. False),
      fs_readFileSync = (\<lambda>p w. (Inl (HostError (''ENOENT: '' @ p)), w)),
      fs_appendFileSync = (\<lambda>p d w. (Inl (HostError (''EACCES: '' @ p)), w)),
      fs_writeFile = (\<lambda>p d w. (Some (HostError (''EACCES: '' @ p)), w)),
      dotenv_config = (\<lambda>p w.
        (Inr (DotenvConfigOutput None (Some (HostError (''ENOENT: '' @ p)))), w)),
      chalk = (\<lambda>styles v. []),
      highlight = (\<lambda>code opts. code),
      console_log = (\<lambda>vs w. w),
      console_error = (\<lambda>vs w. w)\<rparr>"

text \<open>The same host after its working directory has been removed.\<close>

definition cwd_removed_host :: "(string \<times> js_value) list host" where
  "cwd_removed_host =
     demo_host\<lparr>process_cwd := (\<lambda>w. Inl (HostError ''ENOENT: uv_cwd''))\<rparr>"

definition win32_host :: "(string \<times> js_value) list host" where
  "win32_host = demo_host\<lparr>process_platform := ''win32''\<rparr>"

definition win32_path :: string where
  "win32_path = [CHR ''C'', CHR '':'', CHR 0x5C, CHR ''a'', CHR ''/'', CHR 0x5C, CHR ''b'']"

text \<open>
  Four worlds: nothing installed; \<^verbatim>\<open>left-pad\<close> under the working directory only;
  \<^verbatim>\<open>mysql2\<close> under the working directory only (a name of the switch that the plain
  \<^verbatim>\<open>require("mysql2")\<close> does not find); and \<^verbatim>\<open>pg\<close> and \<^verbatim>\<open>mariadb\<close> where the
  plain \<^verbatim>\<open>require\<close> finds them.
\<close>

definition nothing_installed :: "(string \<times> js_value) list" where
  "nothing_installed = []"

definition leftpad_local :: "(string \<times> js_value) list" where
  "leftpad_local = [(''/app/node_modules/left-pad'', JObject 1)]"

definition mysql2_local :: "(string \<times> js_value) list" where
  "mysql2_local = [(''/app/node_modules/mysql2'', JObject 2)]"

definition drivers_installed :: "(string \<times> js_value) list" where
  "drivers_installed =
     [(''pg'', JObject 3), (''mariadb'', JObject 4), (''mariadb/callback'', JObject 5)]"

text \<open>
  The argument of the \<^verbatim>\<open>require\<close> in the \<^verbatim>\<open>catch\<close> block of \<^verbatim>\<open>load\<close>, once
  \<^verbatim>\<open>process.cwd()\<close> has returned the directory \<open>dir\<close>.
\<close>

abbreviation fallback_path :: "'w host \<Rightarrow> 'w \<Rightarrow> string \<Rightarrow> string \<Rightarrow> string" where
  "fallback_path h w dir name \<equiv> path_resolve h w (dir @ ''/node_modules/'' @ name)"

section \<open>Properties of load\<close>

subsection \<open>The four ways a call can go\<close>

lemma host_require_eq:
  "require h p (world s) = (r, w') \<Longrightarrow>
   host_require h p s = (r, s\<lparr>world := w', loads := loads s @ [p]\<rparr>)"
  by (simp add: host_require_def)

lemma load_unlisted:
  "resolution_table name = None \<Longrightarrow>
   load h name s = (Inl (TypeError (''Invalid Package for PlatformTools.load: '' @ name)), s)"
  by (simp add: load_def)

lemma load_direct:
  "resolution_table name = Some target \<Longrightarrow> require h target (world s) = (Inr v, w1) \<Longrightarrow>
   load h name s = (Inr v, s\<lparr>world := w1, loads := loads s @ [target]\<rparr>)"
  by (simp add: load_def host_require_eq)

lemma load_no_cwd:
  "resolution_table name = Some target \<Longrightarrow> require h target (world s) = (Inl e, w1) \<Longrightarrow>
   process_cwd h w1 = Inl c \<Longrightarrow>
   load h name s = (Inl c, s\<lparr>world := w1, loads := loads s @ [target]\<rparr>)"
  by (simp add: load_def host_require_eq)

lemma load_fallback:
  "resolution_table name = Some target \<Longrightarrow> require h target (world s) = (Inl e, w1) \<Longrightarrow>
   process_cwd h w1 = Inr dir \<Longrightarrow>
   require h (fallback_path h w1 dir name) w1 = (r, w2) \<Longrightarrow>
   load h name s =
     (r, s\<lparr>world := w2, loads := loads s @ [target, fallback_path h w1 dir name]\<rparr>)"
  by (simp add: load_def host_require_eq)

lemma load_cases:
  obtains
    (unlisted) "resolution_table name = None"
      "load h name s = (Inl (TypeError (''Invalid Package for PlatformTools.load: '' @ name)), s)"
  | (direct) target v w1 where "resolution_table name = Some target"
      "require h target (world s) = (Inr v, w1)"
      "load h name s = (Inr v, s\<lparr>world := w1, loads := loads s @ [target]\<rparr>)"
  | (no_cwd) target e w1 c where "resolution_table name = Some target"
      "require h target (world s) = (Inl e, w1)"
      "process_cwd h w1 = Inl c"
      "load h name s = (Inl c, s\<lparr>world := w1, loads := loads s @ [target]\<rparr>)"
  | (fallback) target e w1 dir r w2 where "resolution_table name = Some target"
      "require h target (world s) = (Inl e, w1)"
      "process_cwd h w1 = Inr dir"
      "require h (fallback_path h w1 dir name) w1 = (r, w2)"
      "load h name s =
         (r, s\<lparr>world := w2, loads := loads s @ [target, fallback_path h w1 dir name]\<rparr>)"
proof (cases "resolution_table name")
  case None
  show ?thesis by (rule unlisted [OF None load_unlisted [OF None]])
next
  case (Some target)
  obtain x w1 where d: "require h target (world s) = (x, w1)" by (meson surj_pair)
  show ?thesis
  proof (cases x)
    case (Inr v)
    with d have d': "require h target (world s) = (Inr v, w1)" by simp
    show ?thesis by (rule direct [OF Some d' load_direct [OF Some d']])
  next
    case (Inl e)
    with d have d': "require h target (world s) = (Inl e, w1)" by simp
    show ?thesis
    proof (cases "process_cwd h w1")
      case c: (Inl c)
      show ?thesis by (rule no_cwd [OF Some d' c load_no_cwd [OF Some d' c]])
    next
      case c: (Inr dir)
      obtain r w2 where f: "require h (fallback_path h w1 dir name) w1 = (r, w2)"
        by (meson surj_pair)
      show ?thesis by (rule fallback [OF Some d' c f load_fallback [OF Some d' c f]])
    qed
  qed
qed

lemma load_type: "type (snd (load h name s)) = type s"
  by (cases rule: load_cases [of name h s]) simp_all

text \<open>
  What a call does depends on the host world alone: with another value of the static
  field and another record of earlier loads, the outcome is the same and the same
  loads are made.
\<close>

lemma load_frame:
  assumes "load h name s = (r, s1)"
  shows "load h name (s\<lparr>type := t, loads := l\<rparr>) =
    (r, s1\<lparr>type := t, loads := l @ drop (length (loads s)) (loads s1)\<rparr>)"
proof (cases rule: load_cases [of name h s])
  case unlisted
  with assms show ?thesis by (auto simp: load_unlisted)
next
  case (direct target v w1)
  from direct(1) direct(2) have "load h name (s\<lparr>type := t, loads := l\<rparr>) =
     (Inr v, s\<lparr>type := t, loads := l\<rparr>\<lparr>world := w1, loads := l @ [target]\<rparr>)"
    using load_direct [of name target h "s\<lparr>type := t, loads := l\<rparr>" v w1] by simp
  with assms direct(3) show ?thesis by auto
next
  case (no_cwd target e w1 c)
  from no_cwd(1,2,3) have "load h name (s\<lparr>type := t, loads := l\<rparr>) =
     (Inl c, s\<lparr>type := t, loads := l\<rparr>\<lparr>world := w1, loads := l @ [target]\<rparr>)"
    using load_no_cwd [of name target h "s\<lparr>type := t, loads := l\<rparr>" e w1 c] by simp
  with assms no_cwd(4) show ?thesis by auto
next
  case (fallback target e w1 dir r' w2)
  from fallback(1,2,3,4) have "load h name (s\<lparr>type := t, loads := l\<rparr>) =
     (r', s\<lparr>type := t, loads := l\<rparr>
        \<lparr>world := w2, loads := l @ [target, fallback_path h w1 dir name]\<rparr>)"
    using load_fallback [of name target h "s\<lparr>type := t, loads := l\<rparr>" e w1 dir r' w2] by simp
  with assms fallback(5) show ?thesis by auto
qed

subsection \<open>The switch and the demonstration host, evaluated\<close>

lemma table_left_pad: "resolution_table ''left-pad'' = None"
  by (simp add: resolution_table_def switch_cases_def)

lemma table_pg: "resolution_table ''pg'' = Some ''pg''"
  by (simp add: resolution_table_def switch_cases_def)

lemma table_mysql2: "resolution_table ''mysql2'' = Some ''mysql2''"
  by (simp add: resolution_table_def switch_cases_def)

lemma table_mariadb: "resolution_table ''mariadb'' = Some ''mariadb/callback''"
  by (simp add: resolution_table_def switch_cases_def)

lemma demo_require:
  "require demo_host p w =
     (case map_of w p of
        Some m \<Rightarrow> Inr m
      | None \<Rightarrow> Inl (HostError (''Cannot find module '' @ p)), w)"
  by (simp add: demo_host_def)

lemma demo_paths: "process_cwd demo_host w = Inr ''/app''" "path_resolve demo_host w p = p"
  by (simp_all add: demo_host_def)

lemma cwd_removed:
  "require cwd_removed_host p w = require demo_host p w"
  "process_cwd cwd_removed_host w = Inl (HostError ''ENOENT: uv_cwd'')"
  by (simp_all add: cwd_removed_host_def demo_host_def)

lemma demo_pg_missing:
  "load demo_host ''pg'' (initial nothing_installed) =
     (Inl (HostError ''Cannot find module /app/node_modules/pg''),
      \<lparr>type = Node, world = nothing_installed, loads = [''pg'', ''/app/node_modules/pg'']\<rparr>)"
  using load_fallback [OF table_pg, of demo_host "initial nothing_installed"
      "HostError ''Cannot find module pg''" nothing_installed "''/app''"
      "Inl (HostError ''Cannot find module /app/node_modules/pg'')" nothing_installed]
  by (simp add: demo_require demo_paths nothing_installed_def initial_def)

lemma demo_cwd_removed:
  "load cwd_removed_host ''pg'' (initial nothing_installed) =
     (Inl (HostError ''ENOENT: uv_cwd''),
      \<lparr>type = Node, world = nothing_installed, loads = [''pg'']\<rparr>)"
  using load_no_cwd [OF table_pg, of cwd_removed_host "initial nothing_installed"
      "HostError ''Cannot find module pg''" nothing_installed "HostError ''ENOENT: uv_cwd''"]
  by (simp add: cwd_removed demo_require nothing_installed_def initial_def)

lemma demo_pg_installed:
  "load demo_host ''pg'' (initial drivers_installed) =
     (Inr (JObject 3), \<lparr>type = Node, world = drivers_installed, loads = [''pg'']\<rparr>)"
  using load_direct [OF table_pg, of demo_host "initial drivers_installed" "JObject 3" drivers_installed]
  by (simp add: demo_require drivers_installed_def initial_def)

subsection \<open>C1: a name outside the switch\<close>

text \<open>
  Claim C1 says that for a name that is no case of the switch, \<^verbatim>\<open>load\<close> tries the
  fallback load under the working directory before it fails, and raises its error only
  when that load fails too. The code does not: the \<^verbatim>\<open>catch\<close> block holds the only
  fallback load, and with no matching case nothing is thrown inside \<^verbatim>\<open>try\<close>. With
  \<^verbatim>\<open>left-pad\<close> installed under \<^verbatim>\<open>/app/node_modules\<close>, where the fallback load would
  find it, \<^verbatim>\<open>load("left-pad")\<close> throws the TypeError and has made no load at all.
\<close>

theorem load_unlisted_counterexample:
  "resolution_table ''left-pad'' = None \<and>
   process_cwd demo_host leftpad_local = Inr ''/app'' \<and>
   require demo_host (fallback_path demo_host leftpad_local ''/app'' ''left-pad'') leftpad_local
     = (Inr (JObject 1), leftpad_local) \<and>
   load demo_host ''left-pad'' (initial leftpad_local)
     = (Inl (TypeError ''Invalid Package for PlatformTools.load: left-pad''),
        initial leftpad_local) \<and>
   loads (snd (load demo_host ''left-pad'' (initial leftpad_local))) = []"
  by (simp add: load_unlisted table_left_pad demo_require demo_paths
      leftpad_local_def initial_def)

text \<open>
  Claim C1 as the code has it, following the comment above its \<^verbatim>\<open>throw\<close> (a package
  not listed is an invalid package): for every name that is no case of the switch,
  \<^verbatim>\<open>load\<close> throws the TypeError whose message ends with the requested name, makes no
  load, neither direct nor fallback, and leaves the state as it was, whatever is
  installed under the working directory.
\<close>

theorem load_unlisted_throws:
  assumes "resolution_table name = None"
  shows "load h name s =
    (Inl (TypeError (''Invalid Package for PlatformTools.load: '' @ name)), s)"
  using assms by (simp add: load_def)

theorem load_unlisted_throws_witness:
  "resolution_table ''totally-unknown-name'' = None \<and>
   load demo_host ''totally-unknown-name'' (initial nothing_installed) =
     (Inl (TypeError ''Invalid Package for PlatformTools.load: totally-unknown-name''),
      initial nothing_installed)"
proof -
  have t: "resolution_table ''totally-unknown-name'' = None"
    by (simp add: resolution_table_def switch_cases_def)
  from t load_unlisted_throws [OF t, of demo_host "initial nothing_installed"]
  show ?thesis by simp
qed

subsection \<open>C2: the errors of load\<close>

text \<open>
  Claim C2 says that \<^verbatim>\<open>load\<close> raises one kind of error only, the one that carries the
  requested name, that it does so only when the direct and the fallback load have both
  failed, and that no other error reaches the caller. The code differs on both counts.
  The fallback \<^verbatim>\<open>require\<close> stands in the \<^verbatim>\<open>catch\<close> block, outside any \<^verbatim>\<open>try\<close>:
  with \<^verbatim>\<open>pg\<close> installed nowhere, both loads fail and the caller gets the error of the
  fallback \<^verbatim>\<open>require\<close>, not the TypeError of \<^verbatim>\<open>load\<close>.
\<close>

theorem load_both_fail_counterexample:
  "resolution_table ''pg'' = Some ''pg'' \<and>
   fst (require demo_host ''pg'' nothing_installed) = Inl (HostError ''Cannot find module pg'') \<and>
   process_cwd demo_host nothing_installed = Inr ''/app'' \<and>
   fst (require demo_host (fallback_path demo_host nothing_installed ''/app'' ''pg'') nothing_installed)
     = Inl (HostError ''Cannot find module /app/node_modules/pg'') \<and>
   fst (load demo_host ''pg'' (initial nothing_installed))
     = Inl (HostError ''Cannot find module /app/node_modules/pg'') \<and>
   fst (load demo_host ''pg'' (initial nothing_installed))
     \<noteq> Inl (TypeError ''Invalid Package for PlatformTools.load: pg'')"
  using demo_pg_missing by (simp add: table_pg demo_require demo_paths nothing_installed_def)

text \<open>
  Claim C2 as the code has it. Every error of \<^verbatim>\<open>load\<close> is one of three. The first is
  the TypeError whose message ends with the requested name, thrown for a name that is
  no case of the switch, with no load made. The other two arise in the \<^verbatim>\<open>catch\<close>
  block, for a name of the switch whose direct load has failed, and are passed on
  unchanged: the error of \<^verbatim>\<open>process.cwd()\<close>, when that throws, with no fallback load
  made; and the error of the fallback load. The error of the direct load itself is never
  passed on. Every handle \<^verbatim>\<open>load\<close> returns is the one a host load returned, the
  direct load or, after its failure, the fallback load; there is no placeholder.
\<close>

theorem load_outcomes:
  assumes "load h name s = (r, s')"
  shows "case r of
      Inl e \<Rightarrow>
        (resolution_table name = None \<and> s' = s \<and>
         e = TypeError (''Invalid Package for PlatformTools.load: '' @ name)) \<or>
        (\<exists>target e1 w1. resolution_table name = Some target \<and>
           require h target (world s) = (Inl e1, w1) \<and>
           process_cwd h w1 = Inl e \<and>
           s' = s\<lparr>world := w1, loads := loads s @ [target]\<rparr>) \<or>
        (\<exists>target e1 w1 dir w2. resolution_table name = Some target \<and>
           require h target (world s) = (Inl e1, w1) \<and>
           process_cwd h w1 = Inr dir \<and>
           require h (fallback_path h w1 dir name) w1 = (Inl e, w2))
    | Inr v \<Rightarrow>
        (\<exists>target. resolution_table name = Some target \<and>
           ((\<exists>w1. require h target (world s) = (Inr v, w1)) \<or>
            (\<exists>e1 w1 dir w2. require h target (world s) = (Inl e1, w1) \<and>
               process_cwd h w1 = Inr dir \<and>
               require h (fallback_path h w1 dir name) w1 = (Inr v, w2))))"
proof (cases rule: load_cases [of name h s])
  case unlisted
  with assms have "r = Inl (TypeError (''Invalid Package for PlatformTools.load: '' @ name))" "s' = s"
    by simp_all
  with unlisted(1) show ?thesis by simp
next
  case (direct target v w1)
  with assms have "r = Inr v" by simp
  with direct(1,2) show ?thesis by auto
next
  case (no_cwd target e w1 c)
  with assms have "r = Inl c" "s' = s\<lparr>world := w1, loads := loads s @ [target]\<rparr>"
    by simp_all
  with no_cwd(1,2,3) show ?thesis by auto
next
  case (fallback target e w1 dir r' w2)
  with assms have "r' = r" by simp
  with fallback(1,2,3,4) show ?thesis by (cases r) auto
qed

theorem load_outcomes_witness:
  "load demo_host ''pg'' (initial nothing_installed) =
     (Inl (HostError ''Cannot find module /app/node_modules/pg''),
      \<lparr>type = Node, world = nothing_installed, loads = [''pg'', ''/app/node_modules/pg'']\<rparr>) \<and>
   (\<exists>target e1 w1 dir w2. resolution_table ''pg'' = Some target \<and>
      require demo_host target (world (initial nothing_installed)) = (Inl e1, w1) \<and>
      process_cwd demo_host w1 = Inr dir \<and>
      require demo_host (fallback_path demo_host w1 dir ''pg'') w1 =
        (Inl (HostError ''Cannot find module /app/node_modules/pg''), w2))"
  using demo_pg_missing load_outcomes [OF demo_pg_missing]
  by (simp add: table_pg demo_paths)

subsection \<open>C3: the direct load throws\<close>



subsection \<open>C4: the direct load succeeds\<close>

text \<open>
  Claim C4: for a name of the switch whose implementation loads (the \<^verbatim>\<open>require\<close> of
  its case returns a handle \<open>v\<close>, neither \<^verbatim>\<open>null\<close> nor \<^verbatim>\<open>undefined\<close>), \<^verbatim>\<open>load\<close>
  returns \<open>v\<close>, throws nothing and makes that one load only.
\<close>

theorem load_listed_succeeds:
  assumes "resolution_table name = Some target"
    and "require h target (world s) = (Inr v, w1)"
    and "v \<noteq> JNull" and "v \<noteq> JUndefined"
  shows "load h name s = (Inr v, s\<lparr>world := w1, loads := loads s @ [target]\<rparr>)
    \<and> fst (load h name s) \<noteq> Inr JNull \<and> fst (load h name s) \<noteq> Inr JUndefined"
  using assms by (simp add: load_def host_require_def)

theorem load_listed_succeeds_witness:
  "resolution_table ''pg'' = Some ''pg'' \<and>
   require demo_host ''pg'' (world (initial drivers_installed)) = (Inr (JObject 3), drivers_installed) \<and>
   JObject 3 \<noteq> JNull \<and> JObject 3 \<noteq> JUndefined \<and>
   load demo_host ''pg'' (initial drivers_installed) =
     (Inr (JObject 3), \<lparr>type = Node, world = drivers_installed, loads = [''pg'']\<rparr>)"
proof -
  have d: "require demo_host ''pg'' (world (initial drivers_installed)) =
      (Inr (JObject 3), drivers_installed)"
    by (simp add: demo_require drivers_installed_def initial_def)
  from load_listed_succeeds [OF table_pg d] table_pg d show ?thesis
    by (simp add: initial_def)
qed

subsection \<open>C5: no state, no cache\<close>

text \<open>
  Claim C5: \<^verbatim>\<open>load\<close> keeps nothing between calls. When a call leaves the host world
  as it found it, the next call with the same name has the same outcome \<open>r\<close> and
  makes the same host loads once more (they are appended to \<open>loads\<close> a second time);
  the first call has not written the static field; and the outcome does not depend on
  the static field nor on which loads were made before.
\<close>

theorem load_twice:
  assumes "load h name s = (r, s1)" and "world s1 = world s"
  shows "load h name s1 = (r, s1\<lparr>loads := loads s1 @ drop (length (loads s)) (loads s1)\<rparr>)
     \<and> type s1 = type s
     \<and> fst (load h name (s\<lparr>type := t, loads := l\<rparr>)) = r"
proof -
  have ty: "type s1 = type s" using load_type [of h name s] assms(1) by simp
  have "s1 = s\<lparr>type := type s, loads := loads s1\<rparr>"
  proof (cases rule: load_cases [of name h s])
    case unlisted
    with assms show ?thesis by simp
  next
    case (direct target v w1)
    with assms show ?thesis by auto
  next
    case (no_cwd target e w1 c)
    with assms show ?thesis by auto
  next
    case (fallback target e w1 dir r' w2)
    with assms show ?thesis by auto
  qed
  then have "load h name s1 = load h name (s\<lparr>type := type s, loads := loads s1\<rparr>)" by simp
  also have "\<dots> = (r, s1\<lparr>type := type s, loads := loads s1 @ drop (length (loads s)) (loads s1)\<rparr>)"
    by (rule load_frame [OF assms(1)])
  also have "\<dots> = (r, s1\<lparr>loads := loads s1 @ drop (length (loads s)) (loads s1)\<rparr>)"
    using ty by simp
  finally show ?thesis using ty load_frame [OF assms(1), where t = t and l = l] by simp
qed

theorem load_twice_witness:
  "load demo_host ''pg'' (initial drivers_installed) =
     (Inr (JObject 3), \<lparr>type = Node, world = drivers_installed, loads = [''pg'']\<rparr>) \<and>
   world \<lparr>type = Node, world = drivers_installed, loads = [''pg'']\<rparr> = world (initial drivers_installed) \<and>
   load demo_host ''pg'' \<lparr>type = Node, world = drivers_installed, loads = [''pg'']\<rparr> =
     (Inr (JObject 3), \<lparr>type = Node, world = drivers_installed, loads = [''pg'', ''pg'']\<rparr>) \<and>
   fst (load demo_host ''pg'' \<lparr>type = Browser, world = drivers_installed, loads = [''redis'']\<rparr>) =
     Inr (JObject 3)"
proof -
  have w: "world \<lparr>type = Node, world = drivers_installed, loads = [''pg'']\<rparr> =
      world (initial drivers_installed)"
    by (simp add: initial_def)
  from load_twice [OF demo_pg_installed w, where t = Browser and l = "[''redis'']"] demo_pg_installed w
  show ?thesis by (simp add: initial_def)
qed

subsection \<open>C6: where the fallback load looks\<close>

lemma demo_mysql2_local:
  "load demo_host ''mysql2'' (initial mysql2_local) =
     (Inr (JObject 2),
      \<lparr>type = Node, world = mysql2_local, loads = [''mysql2'', ''/app/node_modules/mysql2'']\<rparr>)"
  using load_fallback [OF table_mysql2, of demo_host "initial mysql2_local"
      "HostError ''Cannot find module mysql2''" mysql2_local "''/app''" "Inr (JObject 2)" mysql2_local]
  by (simp add: demo_require demo_paths mysql2_local_def initial_def)

text \<open>
  Claim C6: whenever \<^verbatim>\<open>load\<close> makes the fallback load, it loads from
  \<^verbatim>\<open>path.resolve(process.cwd() + "/node_modules/" + name)\<close> and from nowhere else.
  The loads \<open>evs\<close> of one call take one of three shapes: none, for a name that is
  no case of the switch; the target \<open>d\<close> of its case alone; or \<open>d\<close>, which threw,
  and then one more load, the fallback, whose location \<open>f\<close> is that path, with
  \<open>dir\<close> the working directory that \<^verbatim>\<open>process.cwd()\<close> returns when the
  \<^verbatim>\<open>catch\<close> block runs.
\<close>

theorem load_attempts:
  assumes "load h name s = (r, s')"
  shows "\<exists>evs. loads s' = loads s @ evs \<and>
    (case evs of
       [] \<Rightarrow> resolution_table name = None
     | [d] \<Rightarrow> resolution_table name = Some d
     | [d, f] \<Rightarrow> resolution_table name = Some d \<and>
         (\<exists>e w1 dir. require h d (world s) = (Inl e, w1) \<and>
            process_cwd h w1 = Inr dir \<and> f = fallback_path h w1 dir name)
     | _ \<Rightarrow> False)"
proof (cases rule: load_cases [of name h s])
  case unlisted
  with assms have "loads s' = loads s @ []" by simp
  with unlisted(1) show ?thesis by (intro exI [of _ "[]"]) simp
next
  case (direct target v w1)
  with assms have "loads s' = loads s @ [target]" by auto
  with direct(1) show ?thesis by (intro exI [of _ "[target]"]) simp
next
  case (no_cwd target e w1 c)
  with assms have "loads s' = loads s @ [target]" by auto
  with no_cwd(1) show ?thesis by (intro exI [of _ "[target]"]) simp
next
  case (fallback target e w1 dir r' w2)
  with assms have "loads s' = loads s @ [target, fallback_path h w1 dir name]" by auto
  with fallback(1,2,3) show ?thesis
    by (intro exI [of _ "[target, fallback_path h w1 dir name]"]) simp
qed

theorem load_attempts_witness:
  "load demo_host ''mysql2'' (initial mysql2_local) =
     (Inr (JObject 2),
      \<lparr>type = Node, world = mysql2_local, loads = [''mysql2'', ''/app/node_modules/mysql2'']\<rparr>) \<and>
   (\<exists>e w1 dir. require demo_host ''mysql2'' mysql2_local = (Inl e, w1) \<and>
      process_cwd demo_host w1 = Inr dir \<and>
      ''/app/node_modules/mysql2'' = fallback_path demo_host w1 dir ''mysql2'')"
proof -
  from load_attempts [OF demo_mysql2_local]
  obtain evs where evs: "[''mysql2'', ''/app/node_modules/mysql2''] = evs"
    and c: "case evs of
       [] \<Rightarrow> resolution_table ''mysql2'' = None
     | [d] \<Rightarrow> resolution_table ''mysql2'' = Some d
     | [d, f] \<Rightarrow> resolution_table ''mysql2'' = Some d \<and>
         (\<exists>e w1 dir. require demo_host d (world (initial mysql2_local)) = (Inl e, w1) \<and>
            process_cwd demo_host w1 = Inr dir \<and>
            f = fallback_path demo_host w1 dir ''mysql2'')
     | _ \<Rightarrow> False"
    by (auto simp: initial_def)
  from c [folded evs] have "\<exists>e w1 dir. require demo_host ''mysql2'' mysql2_local = (Inl e, w1) \<and>
      process_cwd demo_host w1 = Inr dir \<and>
      ''/app/node_modules/mysql2'' = fallback_path demo_host w1 dir ''mysql2''"
    by (simp add: table_mysql2 initial_def)
  with demo_mysql2_local show ?thesis by simp
qed

subsection \<open>C9: mariadb\<close>

text \<open>
  Claim C9: the case \<^verbatim>\<open>"mariadb"\<close> of the switch requires \<^verbatim>\<open>"mariadb/callback"\<close>,
  not the package root. When that load succeeds, \<^verbatim>\<open>load("mariadb")\<close> returns its
  handle \<open>v\<close> and has loaded nothing else; on a host where \<^verbatim>\<open>require("mariadb")\<close>
  gives another module object \<open>root\<close>, as the package's root and its callback
  submodule are, what \<^verbatim>\<open>load("mariadb")\<close> returns is not what
  \<^verbatim>\<open>require("mariadb")\<close> returns.
\<close>

theorem load_mariadb:
  assumes "require h ''mariadb/callback'' (world s) = (Inr v, w1)"
    and "fst (require h ''mariadb'' (world s)) = Inr root" and "root \<noteq> v"
  shows "load h ''mariadb'' s = (Inr v, s\<lparr>world := w1, loads := loads s @ [''mariadb/callback'']\<rparr>)
    \<and> fst (load h ''mariadb'' s) \<noteq> fst (require h ''mariadb'' (world s))"
proof -
  have "resolution_table ''mariadb'' = Some ''mariadb/callback''"
    by (simp add: resolution_table_def switch_cases_def)
  from load_direct [OF this assms(1)] assms(2,3) show ?thesis by simp
qed

theorem load_mariadb_witness:
  "require demo_host ''mariadb/callback'' (world (initial drivers_installed)) =
     (Inr (JObject 5), drivers_installed) \<and>
   fst (require demo_host ''mariadb'' (world (initial drivers_installed))) = Inr (JObject 4) \<and>
   JObject 4 \<noteq> JObject 5 \<and>
   load demo_host ''mariadb'' (initial drivers_installed) =
     (Inr (JObject 5), \<lparr>type = Node, world = drivers_installed, loads = [''mariadb/callback'']\<rparr>)"
proof -
  have c: "require demo_host ''mariadb/callback'' (world (initial drivers_installed)) =
     (Inr (JObject 5), drivers_installed)"
    by (simp add: demo_require drivers_installed_def initial_def)
  have r: "fst (require demo_host ''mariadb'' (world (initial drivers_installed))) = Inr (JObject 4)"
    by (simp add: demo_require drivers_installed_def initial_def)
  have n: "JObject 4 \<noteq> JObject 5" by simp
  from load_mariadb [OF c r n] c r show ?thesis by (simp add: initial_def)
qed

section \<open>Properties of the other operations\<close>

subsection \<open>C7: files and environment\<close>

text \<open>
  Claim C7 says that file read, file append, dotenv load and environment get pass the
  host's results and failures through unmodified and suppress none. For \<^verbatim>\<open>dotenv\<close>
  the code does not: the method is \<^verbatim>\<open>void\<close> and drops what \<^verbatim>\<open>dotenv.config\<close>
  returns. With no file \<^verbatim>\<open>.env\<close>, \<^verbatim>\<open>dotenv.config\<close> returns a value that reports
  the error, and \<^verbatim>\<open>dotenv(".env")\<close> returns normally: the caller sees neither that
  value nor the error in it.
\<close>

theorem dotenv_drops_failure_counterexample:
  "dotenv_config demo_host ''.env'' (world (initial nothing_installed)) =
     (Inr (DotenvConfigOutput None (Some (HostError ''ENOENT: .env''))), nothing_installed) \<and>
   dotenv demo_host ''.env'' (initial nothing_installed) = (Inr (), initial nothing_installed)"
  by (simp add: dotenv_def demo_host_def initial_def)

text \<open>
  Claim C7 as the code has it. \<^verbatim>\<open>readFileSync\<close>, \<^verbatim>\<open>appendFileSync\<close> and
  \<^verbatim>\<open>getEnvVariable\<close> hand on what the host gives: when \<^verbatim>\<open>fs.readFileSync\<close> or
  \<^verbatim>\<open>fs.appendFileSync\<close> throws, the operation throws the same error, neither wrapped
  nor replaced nor swallowed; what they return is returned as it is; and
  \<^verbatim>\<open>getEnvVariable\<close> is the value of \<^verbatim>\<open>process.env[name]\<close>. \<^verbatim>\<open>dotenv\<close> throws,
  unchanged, the error that \<^verbatim>\<open>dotenv.config\<close> throws, and otherwise returns nothing:
  whatever \<^verbatim>\<open>dotenv.config\<close> returns, a failure it reports there included, is
  dropped.
\<close>

theorem collaborators_pass_through:
  "(fst (fs_readFileSync h filename (world s)) = Inl e1 \<longrightarrow>
      fst (readFileSync h filename s) = Inl e1) \<and>
   (fst (fs_appendFileSync h filename data (world s)) = Inl e2 \<longrightarrow>
      fst (appendFileSync h filename data s) = Inl e2) \<and>
   fst (readFileSync h filename s) = fst (fs_readFileSync h filename (world s)) \<and>
   fst (appendFileSync h filename data s) = fst (fs_appendFileSync h filename data (world s)) \<and>
   getEnvVariable h name s = process_env h (world s) name \<and>
   fst (dotenv h pathStr s) =
     (case fst (dotenv_config h pathStr (world s)) of
        Inl e3 \<Rightarrow> Inl e3
      | Inr out \<Rightarrow> Inr ())"
  by (simp add: readFileSync_def appendFileSync_def dotenv_def getEnvVariable_def
      split: prod.splits sum.splits)

theorem collaborators_pass_through_witness:
  "fst (fs_readFileSync demo_host ''ormconfig.json'' (world (initial nothing_installed)))
     = Inl (HostError ''ENOENT: ormconfig.json'') \<and>
   fst (readFileSync demo_host ''ormconfig.json'' (initial nothing_installed))
     = Inl (HostError ''ENOENT: ormconfig.json'') \<and>
   fst (fs_appendFileSync demo_host ''ormlogs.log'' (JString ''query'') (world (initial nothing_installed)))
     = Inl (HostError ''EACCES: ormlogs.log'') \<and>
   fst (appendFileSync demo_host ''ormlogs.log'' (JString ''query'') (initial nothing_installed))
     = Inl (HostError ''EACCES: ormlogs.log'') \<and>
   fst (dotenv_config demo_host ''.env'' (world (initial nothing_installed)))
     = Inr (DotenvConfigOutput None (Some (HostError ''ENOENT: .env''))) \<and>
   fst (dotenv demo_host ''.env'' (initial nothing_installed)) = Inr ()"
proof -
  have r: "fst (fs_readFileSync demo_host ''ormconfig.json'' (world (initial nothing_installed)))
     = Inl (HostError ''ENOENT: ormconfig.json'')"
    by (simp add: demo_host_def)
  have d: "fst (dotenv_config demo_host ''.env'' (world (initial nothing_installed)))
     = Inr (DotenvConfigOutput None (Some (HostError ''ENOENT: .env'')))"
    by (simp add: demo_host_def)
  have a: "fst (fs_appendFileSync demo_host ''ormlogs.log'' (JString ''query'') (world (initial nothing_installed)))
     = Inl (HostError ''EACCES: ormlogs.log'')"
    by (simp add: demo_host_def)
  from collaborators_pass_through [where h = demo_host and filename = "''ormconfig.json''"
      and s = "initial nothing_installed" and ?e1.0 = "HostError ''ENOENT: ormconfig.json''"
      and pathStr = "''.env''"] r d
  have 1: "fst (readFileSync demo_host ''ormconfig.json'' (initial nothing_installed))
     = Inl (HostError ''ENOENT: ormconfig.json'')"
    and 3: "fst (dotenv demo_host ''.env'' (initial nothing_installed)) = Inr ()"
    by simp_all
  from collaborators_pass_through [where h = demo_host and filename = "''ormlogs.log''"
      and s = "initial nothing_installed" and data = "JString ''query''"
      and ?e2.0 = "HostError ''EACCES: ormlogs.log''"] a
  have 2: "fst (appendFileSync demo_host ''ormlogs.log'' (JString ''query'') (initial nothing_installed))
     = Inl (HostError ''EACCES: ormlogs.log'')"
    by blast
  from r a d 1 2 3 show ?thesis by blast
qed

subsection \<open>C8: pathNormalize\<close>

lemma replace_backslashes_map:
  "replace_backslashes cs = map (\<lambda>c. if c = CHR 0x5C then CHR ''/'' else c) cs"
  by (induction cs) simp_all

text \<open>
  Claim C8: on every platform but \<^verbatim>\<open>win32\<close>, \<^verbatim>\<open>pathNormalize\<close> returns what
  \<^verbatim>\<open>path.normalize\<close> returns. On \<^verbatim>\<open>win32\<close> it returns a string of the same length
  that has a slash wherever \<^verbatim>\<open>path.normalize\<close> has a backslash, and the same
  character everywhere else.
\<close>

theorem pathNormalize_platform:
  "(process_platform h \<noteq> ''win32'' \<longrightarrow> pathNormalize h pathStr = path_normalize h pathStr) \<and>
   (process_platform h = ''win32'' \<longrightarrow>
      length (pathNormalize h pathStr) = length (path_normalize h pathStr) \<and>
      (\<forall>i < length (path_normalize h pathStr).
         pathNormalize h pathStr ! i =
           (if path_normalize h pathStr ! i = CHR 0x5C then CHR ''/''
            else path_normalize h pathStr ! i)))"
  by (simp add: pathNormalize_def replace_backslashes_map)

theorem pathNormalize_platform_witness:
  "process_platform win32_host = ''win32'' \<and>
   path_normalize win32_host win32_path = win32_path \<and>
   pathNormalize win32_host win32_path = ''C:/a//b'' \<and>
   process_platform demo_host \<noteq> ''win32'' \<and>
   pathNormalize demo_host win32_path = win32_path"
proof -
  have p: "process_platform win32_host = ''win32''"
    by (simp add: win32_host_def)
  have q: "process_platform demo_host \<noteq> ''win32''"
    by (simp add: demo_host_def)
  have n: "path_normalize win32_host win32_path = win32_path"
    "path_normalize demo_host win32_path = win32_path"
    by (simp_all add: win32_host_def demo_host_def)
  from pathNormalize_platform [of win32_host win32_path] p n(1)
  have len: "length (pathNormalize win32_host win32_path) = length win32_path"
    and nth: "\<forall>i < length win32_path. pathNormalize win32_host win32_path ! i =
           (if win32_path ! i = CHR 0x5C then CHR ''/'' else win32_path ! i)"
    by simp_all
  have "pathNormalize win32_host win32_path = ''C:/a//b''"
  proof (rule nth_equalityI)
    show "length (pathNormalize win32_host win32_path) = length ''C:/a//b''"
      using len by (simp add: win32_path_def)
  next
    fix i assume "i < length (pathNormalize win32_host win32_path)"
    with len have i: "i < length win32_path" by simp
    with nth have "pathNormalize win32_host win32_path ! i =
           (if win32_path ! i = CHR 0x5C then CHR ''/'' else win32_path ! i)" by blast
    moreover from i have "i \<in> {0, 1, 2, 3, 4, 5, 6}"
      by (auto simp: win32_path_def)
    ultimately show "pathNormalize win32_host win32_path ! i = ''C:/a//b'' ! i"
      by (auto simp: win32_path_def)
  qed
  moreover from pathNormalize_platform [of demo_host win32_path] q n(2)
  have "pathNormalize demo_host win32_path = win32_path" by simp
  ultimately show ?thesis using p q n by simp
qed

subsection \<open>C10: the static field\<close>

lemma after_call_type: "type (after_call h c s) = type s"
  by (cases c)
    (simp_all add: load_type readFileSync_def appendFileSync_def writeFile_def dotenv_def
      logInfo_def logError_def logWarn_def log_def logCmdErr_def Let_def
      split: prod.splits sum.splits option.splits)

lemma after_calls_type: "type (fold (after_call h) cs s) = type s"
  by (induction cs arbitrary: s) (simp_all add: after_call_type)

text \<open>
  Claim C10: \<^verbatim>\<open>PlatformTools.type\<close> starts as \<^verbatim>\<open>"node"\<close> and no method assigns to
  it: after any sequence \<open>cs\<close> of calls of the methods, with any arguments, on any
  host, whether they return or throw, it is still \<^verbatim>\<open>"node"\<close>.
\<close>

theorem type_stays_node: "type (fold (after_call h) cs (initial w)) = Node"
  by (simp add: after_calls_type initial_def)

end
